theory Spec2Isabelle
  imports Main
begin

section \<open>The sender of congratulation messages (src/logic/sender.py)\<close>

text \<open>
  The class \<open>SenderCongratulationsMessage\<close> keeps two dictionaries keyed by chat:
  \<open>chat_to_job\<close> (the running task of the chat) and \<open>chat_to_setting\<close> (its
  \<open>SenderJob\<close>). A supervisor coroutine, \<open>callback_checker\<close>, takes commands from two
  module-level queues, and one \<open>sender\<close> coroutine per chat rotates through the names.

  Conventions of the embedding:
  \<^item> a method whose Python name begins with an underscore, \<open>_f\<close>, is the constant
    \<open>do_f\<close> (an identifier cannot begin with an underscore);
  \<^item> a method takes the state and returns the state it leaves behind together with
    \<open>Inr ()\<close> (it returned) or \<open>Inl e\<close> (the exception \<open>e\<close> left it);
  \<^item> a Python \<open>str\<close> is a \<open>string\<close> holding its UTF-8 bytes;
  \<^item> the functions of other libraries that the code calls (\<open>json.loads\<close>,
    \<open>pytimeparse.parse\<close>) and the content provider \<open>src.logic.parser.parse\<close> are
    parameters of the methods that call them;
  \<open>bot.send_message\<close> and \<open>bot.send_photo\<close> append the call to the \<open>outbox\<close>.
\<close>

subsection \<open>Values and exceptions\<close>

type_synonym ChatID = string

text \<open>The Python values that \<open>json.loads\<close> returns and that a name list can hold.\<close>

datatype pyval =
    PNone
  | PBool bool
  | PInt int
  | PStr string
  | PList "pyval list"
  | PDict "(string \<times> pyval) list"

datatype error =
    NameError
  | TypeError
  | ProviderError
  | CancelledError

text \<open>\<open>isinstance(names, list)\<close>\<close>

fun isinstance_list :: "pyval \<Rightarrow> bool" where
  "isinstance_list (PList xs) = True"
| "isinstance_list v = False"

fun list_items :: "pyval \<Rightarrow> pyval list" where
  "list_items (PList xs) = xs"
| "list_items v = []"

subsection \<open>Commands (src.models)\<close>

text \<open>
  Modelled from the spec: the enumerations and the two info types of \<open>src.models\<close>, whose
  declarations are not part of the source at hand. The code compares a polling command
  with \<open>START\<close>, \<open>STOP\<close> and \<open>SETTINGS\<close> and a generation command with \<open>PICTURE\<close> and
  \<open>TEXT\<close>; every other value, recognised or not, takes the remaining branch.
\<close>

datatype CommandsForPolling = START | STOP | SETTINGS | OtherPolling string

datatype CommandsForGenerate = PICTURE | TEXT | BOTH | OtherGenerate string

record CommandInfo =
  ci_names :: "string option"
  ci_delay :: "string option"

record PollingInfo =
  p_chat_id :: ChatID
  p_command :: CommandsForPolling
  command_info :: CommandInfo

record GenerateInfo =
  g_chat_id :: ChatID
  g_command :: CommandsForGenerate
  first_name :: pyval

subsection \<open>The state\<close>

record SenderJob =
  repeat_delay :: "int option"
  names :: "pyval list"

definition STANDARD_REPLAY_DELAY :: string where
  "STANDARD_REPLAY_DELAY = ''15m''"

text \<open>The two texts of the code, as UTF-8: the placeholder name and the error notification.\<close>

definition default_name :: string where
  "default_name =
     [CHR 0xD0, CHR 0x91, CHR 0xD0, CHR 0xB5, CHR 0xD0, CHR 0xB7, CHR 0xD1, CHR 0x8B,
      CHR 0xD0, CHR 0xBC, CHR 0xD1, CHR 0x8F, CHR 0xD0, CHR 0xBD, CHR 0xD0, CHR 0xBD,
      CHR 0xD0, CHR 0xB0, CHR 0xD1, CHR 0x8F]"

definition names_error_text :: string where
  "names_error_text =
     [CHR 0xD0, CHR 0x9F, CHR 0xD1, CHR 0x80, CHR 0xD0, CHR 0xB8, CHR 0x20, CHR 0xD0,
      CHR 0xBF, CHR 0xD0, CHR 0xB0, CHR 0xD1, CHR 0x81, CHR 0xD0, CHR 0xB8, CHR 0xD0,
      CHR 0xBD, CHR 0xD0, CHR 0xB3, CHR 0xD0, CHR 0xB5, CHR 0x20, CHR 0xD0, CHR 0xB8,
      CHR 0xD0, CHR 0xBC, CHR 0xD0, CHR 0xB5, CHR 0xD0, CHR 0xBD, CHR 0x20, CHR 0xD0,
      CHR 0xBF, CHR 0xD1, CHR 0x80, CHR 0xD0, CHR 0xBE, CHR 0xD0, CHR 0xB8, CHR 0xD0,
      CHR 0xB7, CHR 0xD0, CHR 0xBE, CHR 0xD0, CHR 0xBB, CHR 0xD1, CHR 0x88, CHR 0xD0,
      CHR 0xB0, CHR 0x20, CHR 0xD0, CHR 0xBE, CHR 0xD1, CHR 0x88, CHR 0xD0, CHR 0xB8,
      CHR 0xD0, CHR 0xB1, CHR 0xD0, CHR 0xBA, CHR 0xD0, CHR 0xB0]"

text \<open>What the bot was asked to send: a text, or an image given by its bytes.\<close>

datatype event = SendMessage ChatID string | SendPhoto ChatID string

text \<open>
  The log. \<open>WarningNames v\<close> is the warning of \<open>_names\<close> about the value \<open>v\<close> that
  \<open>names\<close> holds when it is written; \<open>ErrorName\<close> is \<open>logger.error(name)\<close>.
\<close>

datatype log_entry =
    DebugStarted
  | DebugCancelled
  | WarningNames pyval
  | ErrorName pyval
  | ExceptionUnexpected error

text \<open>
  A list iterator is the list it was made from and the index of the next element:
  \<open>_names\<close> stores a new list and never changes one in place, so the list of an iterator
  stays as it was when \<open>iter(names)\<close> ran.
\<close>

type_synonym names_iter = "pyval list \<times> nat"

text \<open>\<open>it.__next__()\<close>: \<open>None\<close> is \<open>StopIteration\<close>.\<close>

fun iter_next :: "names_iter \<Rightarrow> (pyval \<times> names_iter) option" where
  "iter_next (xs, i) = (if i < length xs then Some (xs ! i, (xs, Suc i)) else None)"

text \<open>
  A \<open>sender\<close> coroutine between two wakes: the chat it is bound to, whether it has run its
  first statement, and its local variable \<open>local_names_iter\<close>.
\<close>

record SenderTask =
  task_chat_id :: ChatID
  started :: bool
  local_names_iter :: "names_iter option"

record state =
  chat_to_job :: "ChatID \<rightharpoonup> nat"
  chat_to_setting :: "ChatID \<rightharpoonup> SenderJob"
  POLLING_QUEUE :: "PollingInfo list"
  GENERATE_QUEUE :: "GenerateInfo list"
  tasks :: "nat \<rightharpoonup> SenderTask"
  next_task :: nat
  outbox :: "event list"
  logged :: "log_entry list"

text \<open>\<open>k in d\<close> for a dictionary \<open>d\<close>.\<close>

definition has_key :: "('k \<rightharpoonup> 'v) \<Rightarrow> 'k \<Rightarrow> bool" where
  "has_key d k = (case d k of None \<Rightarrow> False | Some v \<Rightarrow> True)"

text \<open>Sequencing two awaited calls: an exception of the first skips the second.\<close>

definition and_then ::
  "(error + unit) \<times> state \<Rightarrow> (state \<Rightarrow> (error + unit) \<times> state) \<Rightarrow> (error + unit) \<times> state" where
  "and_then r f = (case r of (Inl e, st) \<Rightarrow> (Inl e, st) | (Inr u, st) \<Rightarrow> f st)"

subsection \<open>Tasks (src.tasks)\<close>

text \<open>
  Modelled from the spec: \<open>run_background_task\<close>, which is not part of the source at hand.
  It spawns the coroutine as a task of its own and returns the handle; the task runs
  when the scheduler wakes it.
\<close>

definition run_background_task :: "SenderTask \<Rightarrow> state \<Rightarrow> nat \<times> state" where
  "run_background_task t st =
     (next_task st,
      st\<lparr>tasks := (tasks st)(next_task st \<mapsto> t), next_task := Suc (next_task st)\<rparr>)"

text \<open>
  Modelled from the spec: \<open>cancel_and_stop_task\<close>, which is not part of the source at
  hand. It cancels the task and awaits it: when it returns, the task has terminated.
\<close>

definition cancel_and_stop_task :: "nat \<Rightarrow> state \<Rightarrow> (error + unit) \<times> state" where
  "cancel_and_stop_task h st = (Inr (), st\<lparr>tasks := (tasks st)(h := None)\<rparr>)"

subsection \<open>The registry: start, stop, names, delay\<close>

text \<open>
  \<open>_start_task\<close> (lines 78 to 86). The last statement builds
  \<open>SenderJob(repeat_delay=repeat_delay, names=[])\<close>, and the name \<open>repeat_delay\<close> is
  bound neither in the method nor in the module (whose constants are
  \<open>STANDARD_REPLAY_DELAY\<close> and \<open>REPEAT_DELAY\<close>): evaluating the argument raises
  \<open>NameError\<close>, after the task was spawned and stored and before anything is stored in
  \<open>chat_to_setting\<close>.
\<close>

definition do_start_task :: "PollingInfo \<Rightarrow> state \<Rightarrow> (error + unit) \<times> state" where
  "do_start_task job_info st =
     (let chat_id = p_chat_id job_info in
      if has_key (chat_to_job st) chat_id \<or> has_key (chat_to_setting st) chat_id
      then (Inr (), st)
      else
        let (task, st1) =
              run_background_task
                \<lparr>task_chat_id = chat_id, started = False, local_names_iter = None\<rparr> st;
            st2 = st1\<lparr>chat_to_job := (chat_to_job st1)(chat_id \<mapsto> task)\<rparr>
        in (Inl NameError, st2))"

text \<open>\<open>_stop_task\<close> (lines 88 to 96).\<close>

definition do_stop_task :: "ChatID \<Rightarrow> state \<Rightarrow> (error + unit) \<times> state" where
  "do_stop_task chat_id st =
     (if \<not> has_key (chat_to_job st) chat_id \<or> \<not> has_key (chat_to_setting st) chat_id
      then (Inr (), st)
      else
        case chat_to_job st chat_id of
          None \<Rightarrow> (Inr (), st)
        | Some task \<Rightarrow>
            cancel_and_stop_task task
              (st\<lparr>chat_to_job := (chat_to_job st)(chat_id := None),
                  chat_to_setting := (chat_to_setting st)(chat_id := None)\<rparr>))"

text \<open>
  \<open>_names\<close> (lines 98 to 115). \<open>json.loads\<close> is the parameter \<open>json_loads\<close>, with
  \<open>None\<close> for \<open>JSONDecodeError\<close>; called on \<open>None\<close> instead of a text it raises
  \<open>TypeError\<close>, which the \<open>except\<close> clause does not catch. \<open>names_failed\<close> is the
  \<open>except\<close> block.
\<close>

definition names_failed :: "ChatID \<Rightarrow> pyval \<Rightarrow> state \<Rightarrow> (error + unit) \<times> state" where
  "names_failed chat_id v st =
     (Inr (), st\<lparr>outbox := outbox st @ [SendMessage chat_id names_error_text],
                 logged := logged st @ [WarningNames v]\<rparr>)"

definition do_names ::
  "(string \<Rightarrow> pyval option) \<Rightarrow> ChatID \<Rightarrow> string option \<Rightarrow> state \<Rightarrow> (error + unit) \<times> state" where
  "do_names json_loads chat_id raw st =
     (case raw of
        None \<Rightarrow> (Inl TypeError, st)
      | Some s \<Rightarrow>
          (case json_loads s of
             None \<Rightarrow> names_failed chat_id (PStr s) st
           | Some v \<Rightarrow>
               if \<not> isinstance_list v then names_failed chat_id v st
               else if \<not> has_key (chat_to_job st) chat_id
                       \<or> \<not> has_key (chat_to_setting st) chat_id
               then (Inr (), st)
               else
                 (case chat_to_setting st chat_id of
                    None \<Rightarrow> (Inr (), st)
                  | Some job \<Rightarrow>
                      (Inr (),
                       st\<lparr>chat_to_setting :=
                            (chat_to_setting st)(chat_id \<mapsto> job\<lparr>names := list_items v\<rparr>)\<rparr>))))"

text \<open>
  \<open>_repeat_delay\<close> (lines 117 to 124). \<open>pytimeparse.parse\<close> is the parameter
  \<open>time_parse\<close>; it returns \<open>None\<close> for a text it cannot read.
  \<open>repeat_delay or STANDARD_REPLAY_DELAY\<close> takes the default for \<open>None\<close> and for the
  empty text.
\<close>

definition do_repeat_delay ::
  "(string \<Rightarrow> int option) \<Rightarrow> ChatID \<Rightarrow> string option \<Rightarrow> state \<Rightarrow> (error + unit) \<times> state" where
  "do_repeat_delay time_parse chat_id raw st =
     (if \<not> has_key (chat_to_job st) chat_id \<or> \<not> has_key (chat_to_setting st) chat_id
      then (Inr (), st)
      else
        case chat_to_setting st chat_id of
          None \<Rightarrow> (Inr (), st)
        | Some job \<Rightarrow>
            let text = (case raw of
                          None \<Rightarrow> STANDARD_REPLAY_DELAY
                        | Some r \<Rightarrow> if r = [] then STANDARD_REPLAY_DELAY else r);
                parsed = time_parse text
            in (Inr (),
                st\<lparr>chat_to_setting :=
                     (chat_to_setting st)(chat_id \<mapsto> job\<lparr>repeat_delay := parsed\<rparr>)\<rparr>))"

subsection \<open>Sending and generating\<close>

text \<open>
  \<open>_send\<close> (lines 184 to 199). The content provider is the parameter \<open>parse\<close>: the
  image bytes and the text for a name, or \<open>None\<close> when it raises.
\<close>

definition do_send ::
  "(pyval \<Rightarrow> (string \<times> string) option) \<Rightarrow> ChatID \<Rightarrow> pyval \<Rightarrow> bool \<Rightarrow> bool \<Rightarrow> state
     \<Rightarrow> (error + unit) \<times> state" where
  "do_send parse chat_id name0 send_only_picture send_only_text st =
     (let name = (if name0 = PNone then PStr default_name else name0) in
      case parse name of
        None \<Rightarrow> (Inl ProviderError, st)
      | Some (image_bytes, text) \<Rightarrow>
          (Inr (),
           st\<lparr>outbox := outbox st
                 @ (if \<not> send_only_text then [SendPhoto chat_id image_bytes] else [])
                 @ (if \<not> send_only_picture then [SendMessage chat_id text] else [])\<rparr>))"

text \<open>\<open>_generate\<close> (lines 126 to 147).\<close>

definition do_generate ::
  "(pyval \<Rightarrow> (string \<times> string) option) \<Rightarrow> state \<Rightarrow> (error + unit) \<times> state" where
  "do_generate parse st =
     (case GENERATE_QUEUE st of
        [] \<Rightarrow> (Inr (), st)
      | get_info # rest \<Rightarrow>
          let st1 = st\<lparr>GENERATE_QUEUE := rest\<rparr>;
              command = g_command get_info;
              send_only_picture = (command = PICTURE);
              send_only_text = (command \<noteq> PICTURE \<and> command = TEXT)
          in do_send parse (g_chat_id get_info) (first_name get_info)
               send_only_picture send_only_text st1)"

subsection \<open>The supervisor cycle\<close>

text \<open>\<open>_polling\<close> (lines 61 to 76).\<close>

definition do_polling ::
  "(string \<Rightarrow> pyval option) \<Rightarrow> (string \<Rightarrow> int option) \<Rightarrow> state \<Rightarrow> (error + unit) \<times> state" where
  "do_polling json_loads time_parse st =
     (case POLLING_QUEUE st of
        [] \<Rightarrow> (Inr (), st)
      | job_info # rest \<Rightarrow>
          let st1 = st\<lparr>POLLING_QUEUE := rest\<rparr>;
              chat_id = p_chat_id job_info;
              command = p_command job_info
          in if command = START then do_start_task job_info st1
             else if command = STOP then do_stop_task chat_id st1
             else if command = SETTINGS then
               and_then (do_names json_loads chat_id (ci_names (command_info job_info)) st1)
                 (do_repeat_delay time_parse chat_id (ci_delay (command_info job_info)))
             else (Inr (), st1))"

text \<open>
  One run of the body of \<open>callback_checker\<close> (lines 56 to 59). The decorator
  \<open>run_forever\<close>, which repeats it, is not part of the source at hand.
\<close>

definition callback_checker ::
  "(string \<Rightarrow> pyval option) \<Rightarrow> (string \<Rightarrow> int option) \<Rightarrow> (pyval \<Rightarrow> (string \<times> string) option)
     \<Rightarrow> state \<Rightarrow> (error + unit) \<times> state" where
  "callback_checker json_loads time_parse parse st =
     and_then (do_polling json_loads time_parse st) (do_generate parse)"

subsection \<open>The sender coroutine\<close>

text \<open>
  \<open>asyncio.sleep(delay)\<close> compares the delay with zero first, so a delay of \<open>None\<close>
  raises \<open>TypeError\<close>.
\<close>

definition asyncio_sleep :: "int option \<Rightarrow> error option" where
  "asyncio_sleep delay = (case delay of None \<Rightarrow> Some TypeError | Some d \<Rightarrow> None)"

text \<open>
  One iteration of the \<open>while True\<close> loop of \<open>sender\<close> (lines 153 to 182): the iterator
  it leaves, the name \<open>_send\<close> was called with (if it was called), the argument of
  \<open>asyncio.sleep\<close> in the \<open>finally\<close> block, and the exception that leaves the loop
  (if one does).
\<close>

record tick =
  tick_iter :: "names_iter option"
  tick_dispatch :: "pyval option"
  tick_sleep :: "int option"
  tick_raised :: "error option"
  tick_state :: state

definition finally_sleep ::
  "names_iter option \<Rightarrow> pyval option \<Rightarrow> int option \<Rightarrow> state \<Rightarrow> tick" where
  "finally_sleep it sent replay_delay st =
     \<lparr>tick_iter = it, tick_dispatch = sent, tick_sleep = replay_delay,
      tick_raised = asyncio_sleep replay_delay, tick_state = st\<rparr>"

definition sender_tick ::
  "(pyval \<Rightarrow> (string \<times> string) option) \<Rightarrow> ChatID \<Rightarrow> names_iter option \<Rightarrow> state \<Rightarrow> tick" where
  "sender_tick parse chat_id it st =
     (case chat_to_setting st chat_id of
        None \<Rightarrow>
          \<lparr>tick_iter = it, tick_dispatch = None, tick_sleep = Some 5,
           tick_raised = (case asyncio_sleep (Some 5) of
                            None \<Rightarrow> Some CancelledError | Some e \<Rightarrow> Some e),
           tick_state = st\<lparr>logged := logged st @ [DebugCancelled]\<rparr>\<rparr>
      | Some job \<Rightarrow>
          let replay_delay = repeat_delay job in
          (case it of
             None \<Rightarrow> finally_sleep (Some (names job, 0)) None replay_delay st
           | Some i \<Rightarrow>
               (case iter_next i of
                  None \<Rightarrow> finally_sleep None None replay_delay st
                | Some (name, i') \<Rightarrow>
                    let st1 = st\<lparr>logged := logged st @ [ErrorName name]\<rparr> in
                    (case do_send parse chat_id name False False st1 of
                       (Inl e, st2) \<Rightarrow>
                         finally_sleep (Some i') (Some name) replay_delay
                           (st2\<lparr>logged := logged st2 @ [ExceptionUnexpected e]\<rparr>)
                     | (Inr u, st2) \<Rightarrow>
                         finally_sleep (Some i') (Some name) replay_delay st2))))"

text \<open>
  The loop of \<open>sender\<close>, observed for \<open>n\<close> wakes: what each wake dispatched, the
  exception that ended the loop within these wakes, and the state.
\<close>

fun sender_loop ::
  "(pyval \<Rightarrow> (string \<times> string) option) \<Rightarrow> ChatID \<Rightarrow> nat \<Rightarrow> names_iter option \<Rightarrow> state
     \<Rightarrow> pyval option list \<times> error option \<times> state" where
  "sender_loop parse chat_id 0 it st = ([], None, st)"
| "sender_loop parse chat_id (Suc n) it st =
     (let t = sender_tick parse chat_id it st in
      case tick_raised t of
        Some e \<Rightarrow> ([tick_dispatch t], Some e, tick_state t)
      | None \<Rightarrow>
          (case sender_loop parse chat_id n (tick_iter t) (tick_state t) of
             (ds, r, st') \<Rightarrow> (tick_dispatch t # ds, r, st')))"

definition sender ::
  "(pyval \<Rightarrow> (string \<times> string) option) \<Rightarrow> ChatID \<Rightarrow> nat \<Rightarrow> state
     \<Rightarrow> pyval option list \<times> error option \<times> state" where
  "sender parse chat_id n st =
     sender_loop parse chat_id n None (st\<lparr>logged := logged st @ [DebugStarted]\<rparr>)"

text \<open>
  The scheduler wakes the task with handle \<open>h\<close>: the task runs one iteration of its loop
  (after its first statement, when this is its first wake) and is gone when an
  exception leaves the loop.
\<close>

definition first_statement :: "SenderTask \<Rightarrow> state \<Rightarrow> state" where
  "first_statement t st =
     (if started t then st else st\<lparr>logged := logged st @ [DebugStarted]\<rparr>)"

definition wake :: "(pyval \<Rightarrow> (string \<times> string) option) \<Rightarrow> state \<Rightarrow> nat \<Rightarrow> state" where
  "wake parse st h =
     (case tasks st h of
        None \<Rightarrow> st
      | Some t \<Rightarrow>
          let r = sender_tick parse (task_chat_id t) (local_names_iter t) (first_statement t st);
              st1 = tick_state r;
              ended = (tasks st1)(h := None);
              asleep = (tasks st1)(h \<mapsto> t\<lparr>started := True, local_names_iter := tick_iter r\<rparr>)
          in (case tick_raised r of
                Some e \<Rightarrow> st1\<lparr>tasks := ended\<rparr>
              | None \<Rightarrow> st1\<lparr>tasks := asleep\<rparr>))"

text \<open>The calls the bot received for one chat.\<close>

fun event_chat :: "event \<Rightarrow> ChatID" where
  "event_chat (SendMessage c s) = c"
| "event_chat (SendPhoto c s) = c"

definition sent_to :: "ChatID \<Rightarrow> state \<Rightarrow> event list" where
  "sent_to c st = filter (\<lambda>e. event_chat e = c) (outbox st)"

section \<open>The sequences of the dispatch claim\<close>

text \<open>
  What the loop of \<open>sender\<close> dispatches at its wake number \<open>k\<close> (from 0) when the names
  are A and B: a pass takes four wakes, the first and the last of which dispatch nothing.
\<close>

definition sender_dispatch_AB :: "nat \<Rightarrow> pyval option" where
  "sender_dispatch_AB k =
     (if k mod 4 = 1 then Some (PStr ''A'') else if k mod 4 = 2 then Some (PStr ''B'') else None)"

text \<open>
  The sequence as the specification words it: nothing at the priming wake, then A, B and
  one wake without dispatch, again and again.
\<close>

definition spec_dispatch_AB :: "nat \<Rightarrow> pyval option" where
  "spec_dispatch_AB k =
     (if k = 0 then None
      else if (k - 1) mod 3 = 0 then Some (PStr ''A'')
      else if (k - 1) mod 3 = 1 then Some (PStr ''B'')
      else None)"

text \<open>The iterator of the loop before its wake number \<open>k\<close>.\<close>

definition names_AB :: "pyval list" where
  "names_AB = [PStr ''A'', PStr ''B'']"

definition iter_AB :: "nat \<Rightarrow> names_iter option" where
  "iter_AB k = (if k mod 4 = 0 then None else Some (names_AB, k mod 4 - 1))"

section \<open>Sample inputs\<close>

text \<open>
  A content provider that answers for every text name, and the results of \<open>json.loads\<close>
  and \<open>pytimeparse.parse\<close> on the texts used below (\<open>not-json\<close> is not JSON, \<open>soon\<close> is
  not a delay).
\<close>

fun echo_parse :: "pyval \<Rightarrow> (string \<times> string) option" where
  "echo_parse (PStr s) = Some (''image of '' @ s, ''text for '' @ s)"
| "echo_parse v = None"

definition json_loads_sample :: "string \<Rightarrow> pyval option" where
  \<open>json_loads_sample s =
     (if s = ''["A","B"]'' then Some (PList [PStr ''A'', PStr ''B''])
      else if s = ''[]'' then Some (PList [])
      else if s = ''{}'' then Some (PDict [])
      else None)\<close>

definition time_parse_sample :: "string \<Rightarrow> int option" where
  "time_parse_sample s =
     (if s = ''15m'' then Some 900 else if s = ''2h'' then Some 7200 else None)"

definition polling_info ::
  "ChatID \<Rightarrow> CommandsForPolling \<Rightarrow> string option \<Rightarrow> string option \<Rightarrow> PollingInfo" where
  "polling_info c cmd ns d =
     \<lparr>p_chat_id = c, p_command = cmd, command_info = \<lparr>ci_names = ns, ci_delay = d\<rparr>\<rparr>"

definition generate_info :: "ChatID \<Rightarrow> CommandsForGenerate \<Rightarrow> pyval \<Rightarrow> GenerateInfo" where
  "generate_info c cmd n = \<lparr>g_chat_id = c, g_command = cmd, first_name = n\<rparr>"

text \<open>A sender that has processed nothing yet.\<close>

definition state_empty :: state where
  "state_empty =
     \<lparr>chat_to_job = Map.empty, chat_to_setting = Map.empty,
      POLLING_QUEUE = [], GENERATE_QUEUE = [],
      tasks = Map.empty, next_task = 0, outbox = [], logged = []\<rparr>"

text \<open>One active chat with the names A and B and a delay of 900 seconds.\<close>

definition job_AB :: SenderJob where
  "job_AB = \<lparr>repeat_delay = Some 900, names = [PStr ''A'', PStr ''B'']\<rparr>"

definition state_AB :: state where
  "state_AB =
     \<lparr>chat_to_job = [''chat'' \<mapsto> 0],
      chat_to_setting = [''chat'' \<mapsto> job_AB],
      POLLING_QUEUE = [], GENERATE_QUEUE = [],
      tasks = [0 \<mapsto> \<lparr>task_chat_id = ''chat'', started = False, local_names_iter = None\<rparr>],
      next_task = 1, outbox = [], logged = []\<rparr>"

text \<open>Settings commands waiting for a chat that has no job.\<close>

definition settings_not_json :: state where
  "settings_not_json =
     state_empty\<lparr>POLLING_QUEUE := [polling_info ''chat'' SETTINGS (Some ''not-json'') None]\<rparr>"

definition settings_inactive :: state where
  \<open>settings_inactive =
     state_empty\<lparr>POLLING_QUEUE :=
       [polling_info ''chat'' SETTINGS (Some ''["A","B"]'') (Some ''2h'')]\<rparr>\<close>

text \<open>One generation command waiting.\<close>

definition state_generate :: "CommandsForGenerate \<Rightarrow> pyval \<Rightarrow> state" where
  "state_generate cmd n = state_empty\<lparr>GENERATE_QUEUE := [generate_info ''chat'' cmd n]\<rparr>"

text \<open>Two commands waiting in each queue.\<close>

definition state_cycle :: "CommandsForPolling \<Rightarrow> state" where
  "state_cycle cmd =
     state_empty\<lparr>POLLING_QUEUE := [polling_info ''chat'' cmd None None,
                                   polling_info ''chat'' STOP None None],
                 GENERATE_QUEUE := [generate_info ''chat'' BOTH (PStr ''Anna''),
                                    generate_info ''chat'' TEXT (PStr ''Vera'')]\<rparr>"

section \<open>Frame lemmas\<close>

lemma has_key_simps [simp]:
  "has_key d k = (d k \<noteq> None)"
  by (simp add: has_key_def split: option.splits)

lemma do_send_registry:
  "chat_to_setting (snd (do_send parse c v p t st)) = chat_to_setting st"
  "chat_to_job (snd (do_send parse c v p t st)) = chat_to_job st"
  "tasks (snd (do_send parse c v p t st)) = tasks st"
  by (simp_all add: do_send_def Let_def split: option.splits prod.splits)

lemma sender_tick_registry:
  "chat_to_setting (tick_state (sender_tick parse c it st)) = chat_to_setting st"
  "chat_to_job (tick_state (sender_tick parse c it st)) = chat_to_job st"
  "tasks (tick_state (sender_tick parse c it st)) = tasks st"
  by (auto simp add: sender_tick_def finally_sleep_def do_send_def Let_def
      split: option.splits prod.splits sum.splits)

lemma wake_registry:
  "chat_to_setting (wake parse st h) = chat_to_setting st"
  by (simp add: wake_def Let_def sender_tick_registry first_statement_def split: option.splits)

lemma do_polling_queues:
  "POLLING_QUEUE (snd (do_polling jl tp st)) = drop 1 (POLLING_QUEUE st)"
  "GENERATE_QUEUE (snd (do_polling jl tp st)) = GENERATE_QUEUE st"
  by (auto simp add: do_polling_def do_start_task_def run_background_task_def do_stop_task_def
      cancel_and_stop_task_def do_names_def names_failed_def do_repeat_delay_def and_then_def
      Let_def split: list.splits option.splits sum.splits prod.splits)

lemma do_generate_queues:
  "POLLING_QUEUE (snd (do_generate parse st)) = POLLING_QUEUE st"
  "GENERATE_QUEUE (snd (do_generate parse st)) = drop 1 (GENERATE_QUEUE st)"
  by (auto simp add: do_generate_def do_send_def Let_def split: list.splits option.splits)

section \<open>The rotation of the sender\<close>

lemma mod4_cases: "(k::nat) mod 4 = 0 \<or> k mod 4 = 1 \<or> k mod 4 = 2 \<or> k mod 4 = 3"
  by arith

lemma sender_tick_AB:
  assumes "chat_to_setting st c = Some job" "names job = names_AB" "repeat_delay job = Some d"
  shows "tick_dispatch (sender_tick parse c (iter_AB k) st) = sender_dispatch_AB k"
    and "tick_iter (sender_tick parse c (iter_AB k) st) = iter_AB (Suc k)"
    and "tick_raised (sender_tick parse c (iter_AB k) st) = None"
  using assms mod4_cases [of k]
  by (auto simp add: sender_tick_def finally_sleep_def asyncio_sleep_def iter_AB_def
      sender_dispatch_AB_def names_AB_def Let_def mod_Suc
      split: option.splits prod.splits sum.splits)

lemma sender_loop_AB:
  assumes "chat_to_setting st c = Some job" "names job = names_AB" "repeat_delay job = Some d"
  shows "fst (sender_loop parse c n (iter_AB k) st) = map sender_dispatch_AB [k..<k + n]
       \<and> fst (snd (sender_loop parse c n (iter_AB k) st)) = None"
  using assms
proof (induction n arbitrary: k st)
  case 0
  then show ?case by simp
next
  case (Suc n)
  let ?t = "sender_tick parse c (iter_AB k) st"
  have reg: "chat_to_setting (tick_state ?t) c = Some job"
    using Suc.prems(1) by (simp add: sender_tick_registry)
  have ih: "fst (sender_loop parse c n (iter_AB (Suc k)) (tick_state ?t))
              = map sender_dispatch_AB [Suc k..<Suc k + n]
          \<and> fst (snd (sender_loop parse c n (iter_AB (Suc k)) (tick_state ?t))) = None"
    using Suc.IH [OF reg Suc.prems(2) Suc.prems(3)] .
  have up: "[k..<k + Suc n] = k # [Suc k..<Suc k + n]"
    by (simp add: upt_rec)
  show ?case
    unfolding up
    using ih sender_tick_AB [OF Suc.prems, of parse k]
    by (simp add: Let_def case_prod_unfold del: upt_Suc)
qed

lemma dispatch_AB_prefix:
  "map sender_dispatch_AB [0..<9] =
     [None, Some (PStr ''A''), Some (PStr ''B''), None,
      None, Some (PStr ''A''), Some (PStr ''B''), None, None]"
  by code_simp

text \<open>
  Claim C1, as the code has it. For a chat whose settings hold the names A and B and a
  delay that is a number, the wakes of \<open>sender\<close> dispatch in a cycle of four: nothing at
  the priming wake (the iterator is made), A, B, nothing at the wrap wake (the iterator
  is exhausted and dropped), and then the priming wake again. Every pass has two wakes
  without dispatch, and the loop is still running after any number of wakes.
\<close>

theorem sender_dispatch_cycle_AB:
  assumes "chat_to_setting st c = Some job" "names job = [PStr ''A'', PStr ''B'']"
    "repeat_delay job = Some d"
  shows "fst (sender parse c n st) = map sender_dispatch_AB [0..<n]
       \<and> fst (snd (sender parse c n st)) = None"
proof -
  let ?st = "st\<lparr>logged := logged st @ [DebugStarted]\<rparr>"
  have "chat_to_setting ?st c = Some job" using assms(1) by simp
  from sender_loop_AB [OF this, of d parse n 0] assms(2,3)
  show ?thesis by (simp add: sender_def iter_AB_def names_AB_def)
qed

theorem sender_dispatch_cycle_AB_witness:
  "chat_to_setting state_AB ''chat'' = Some job_AB
   \<and> names job_AB = [PStr ''A'', PStr ''B'']
   \<and> repeat_delay job_AB = Some 900
   \<and> fst (sender echo_parse ''chat'' 9 state_AB) =
       [None, Some (PStr ''A''), Some (PStr ''B''), None,
        None, Some (PStr ''A''), Some (PStr ''B''), None, None]
   \<and> fst (snd (sender echo_parse ''chat'' 9 state_AB)) = None"
  using sender_dispatch_cycle_AB [of state_AB "''chat''" job_AB 900 echo_parse 9]
  by (simp add: state_AB_def job_AB_def dispatch_AB_prefix)

text \<open>
  Claim C1, as the specification words it, fails at the fifth wake: the code primes the
  iterator again there and dispatches nothing, where the specification has A.
\<close>

theorem sender_dispatch_spec_counterexample:
  "fst (sender echo_parse ''chat'' 5 state_AB) =
     [None, Some (PStr ''A''), Some (PStr ''B''), None, None]
   \<and> map spec_dispatch_AB [0..<5] =
     [None, Some (PStr ''A''), Some (PStr ''B''), None, Some (PStr ''A'')]
   \<and> fst (sender echo_parse ''chat'' 5 state_AB) \<noteq> map spec_dispatch_AB [0..<5]"
  by code_simp

section \<open>Starting a job\<close>

lemma start_task_present:
  assumes "has_key (chat_to_job st) (p_chat_id job_info)
         \<or> has_key (chat_to_setting st) (p_chat_id job_info)"
  shows "do_start_task job_info st = (Inr (), st)"
  using assms by (auto simp add: do_start_task_def Let_def)

text \<open>
  Claim C2 at a chat that is not registered. \<open>_start_task\<close> spawns the task and stores its
  handle, and then \<open>NameError\<close> leaves it: no settings entry is created.
\<close>

theorem start_task_fresh_chat_raises:
  "fst (do_start_task (polling_info ''chat'' START None None) state_empty) = Inl NameError
   \<and> chat_to_job (snd (do_start_task (polling_info ''chat'' START None None) state_empty)) ''chat''
       = Some 0
   \<and> chat_to_setting (snd (do_start_task (polling_info ''chat'' START None None) state_empty)) ''chat''
       = None"
  by (simp add: do_start_task_def run_background_task_def state_empty_def
      polling_info_def Let_def)

section \<open>The pairing of the two dictionaries\<close>

lemma stop_keeps_registry_pair:
  assumes "has_key (chat_to_job st) k = has_key (chat_to_setting st) k"
  shows "has_key (chat_to_job (snd (do_stop_task c st))) k
       = has_key (chat_to_setting (snd (do_stop_task c st))) k"
  using assms
  by (auto simp add: do_stop_task_def cancel_and_stop_task_def split: option.splits)

lemma names_keeps_registry_pair:
  assumes "has_key (chat_to_job st) k = has_key (chat_to_setting st) k"
  shows "has_key (chat_to_job (snd (do_names jl c raw st))) k
       = has_key (chat_to_setting (snd (do_names jl c raw st))) k"
  using assms
  by (auto simp add: do_names_def names_failed_def split: option.splits)

lemma repeat_delay_keeps_registry_pair:
  assumes "has_key (chat_to_job st) k = has_key (chat_to_setting st) k"
  shows "has_key (chat_to_job (snd (do_repeat_delay tp c raw st))) k
       = has_key (chat_to_setting (snd (do_repeat_delay tp c raw st))) k"
  using assms
  by (auto simp add: do_repeat_delay_def Let_def split: option.splits)

text \<open>
  Claim C3 after a start command for a chat that is not registered: the chat has an entry
  in \<open>chat_to_job\<close> and none in \<open>chat_to_setting\<close>. (Stopping and the two settings methods
  keep the pairing, by the three lemmas above.)
\<close>

theorem start_breaks_registry_pair:
  "has_key (chat_to_job (snd (do_polling json_loads_sample time_parse_sample
       (state_empty\<lparr>POLLING_QUEUE := [polling_info ''chat'' START None None]\<rparr>)))) ''chat''
   \<and> \<not> has_key (chat_to_setting (snd (do_polling json_loads_sample time_parse_sample
       (state_empty\<lparr>POLLING_QUEUE := [polling_info ''chat'' START None None]\<rparr>)))) ''chat''"
  by (simp add: do_polling_def do_start_task_def run_background_task_def
      state_empty_def polling_info_def Let_def)

section \<open>Stopping a job\<close>

lemma sender_tick_sent_to:
  assumes "c' \<noteq> c \<or> chat_to_setting st c = None"
  shows "sent_to c (tick_state (sender_tick parse c' it st)) = sent_to c st"
  using assms
  by (auto simp add: sender_tick_def finally_sleep_def do_send_def sent_to_def Let_def
      split: option.splits prod.splits sum.splits)

lemma wake_sent_to:
  assumes "chat_to_setting st c = None"
  shows "sent_to c (wake parse st h) = sent_to c st"
proof (cases "tasks st h")
  case None
  then show ?thesis by (simp add: wake_def)
next
  case (Some t)
  let ?st0 = "first_statement t st"
  let ?r = "sender_tick parse (task_chat_id t) (local_names_iter t) ?st0"
  have "chat_to_setting ?st0 c = None" using assms by (simp add: first_statement_def)
  then have "sent_to c (tick_state ?r) = sent_to c ?st0"
    by (rule sender_tick_sent_to [OF disjI2])
  moreover have "sent_to c ?st0 = sent_to c st"
    by (simp add: sent_to_def first_statement_def)
  moreover have "sent_to c (wake parse st h) = sent_to c (tick_state ?r)"
    using Some by (simp add: wake_def Let_def sent_to_def split: option.splits)
  ultimately show ?thesis by simp
qed

lemma wakes_sent_to:
  assumes "chat_to_setting st c = None"
  shows "sent_to c (foldl (wake parse) st hs) = sent_to c st"
  using assms
proof (induction hs arbitrary: st)
  case Nil
  then show ?case by simp
next
  case (Cons h hs)
  have "chat_to_setting (wake parse st h) c = None"
    using Cons.prems by (simp add: wake_registry)
  from Cons.IH [OF this] wake_sent_to [OF Cons.prems]
  show ?case by simp
qed

text \<open>
  Claim C4. \<open>_stop_task\<close> on a chat that is in neither dictionary changes nothing. On a
  chat that is in both it returns after removing both entries and cancelling and
  awaiting the task of the chat, which is then gone; and whichever tasks the scheduler
  wakes afterwards, in whichever order, the bot receives nothing more for this chat.
\<close>

theorem stop_task_removes_and_cancels:
  "(\<not> has_key (chat_to_job st) c \<and> \<not> has_key (chat_to_setting st) c
      \<longrightarrow> do_stop_task c st = (Inr (), st))
   \<and> (chat_to_job st c = Some h \<and> chat_to_setting st c = Some job
      \<longrightarrow> fst (do_stop_task c st) = Inr ()
        \<and> chat_to_job (snd (do_stop_task c st)) c = None
        \<and> chat_to_setting (snd (do_stop_task c st)) c = None
        \<and> tasks (snd (do_stop_task c st)) h = None
        \<and> sent_to c (snd (do_stop_task c st)) = sent_to c st
        \<and> (\<forall>hs. sent_to c (foldl (wake parse) (snd (do_stop_task c st)) hs) = sent_to c st))"
proof (intro conjI impI)
  assume "\<not> has_key (chat_to_job st) c \<and> \<not> has_key (chat_to_setting st) c"
  then show "do_stop_task c st = (Inr (), st)" by (simp add: do_stop_task_def)
next
  assume a: "chat_to_job st c = Some h \<and> chat_to_setting st c = Some job"
  let ?st' = "snd (do_stop_task c st)"
  from a show "fst (do_stop_task c st) = Inr ()"
    by (simp add: do_stop_task_def cancel_and_stop_task_def)
  from a show "chat_to_job ?st' c = None"
    by (simp add: do_stop_task_def cancel_and_stop_task_def)
  from a show gone: "chat_to_setting ?st' c = None"
    by (simp add: do_stop_task_def cancel_and_stop_task_def)
  from a show "tasks ?st' h = None"
    by (simp add: do_stop_task_def cancel_and_stop_task_def)
  from a show same: "sent_to c ?st' = sent_to c st"
    by (simp add: do_stop_task_def cancel_and_stop_task_def sent_to_def)
  show "\<forall>hs. sent_to c (foldl (wake parse) ?st' hs) = sent_to c st"
    using wakes_sent_to [OF gone] same by simp
qed

theorem stop_task_removes_and_cancels_witness:
  "\<not> has_key (chat_to_job state_empty) ''chat'' \<and> \<not> has_key (chat_to_setting state_empty) ''chat''
   \<and> do_stop_task ''chat'' state_empty = (Inr (), state_empty)
   \<and> chat_to_job state_AB ''chat'' = Some 0 \<and> chat_to_setting state_AB ''chat'' = Some job_AB
   \<and> fst (do_stop_task ''chat'' state_AB) = Inr ()
   \<and> chat_to_job (snd (do_stop_task ''chat'' state_AB)) ''chat'' = None
   \<and> chat_to_setting (snd (do_stop_task ''chat'' state_AB)) ''chat'' = None
   \<and> tasks (snd (do_stop_task ''chat'' state_AB)) 0 = None
   \<and> sent_to ''chat'' (foldl (wake echo_parse) (snd (do_stop_task ''chat'' state_AB)) [0, 0, 0])
       = sent_to ''chat'' state_AB"
proof -
  have absent: "\<not> has_key (chat_to_job state_empty) ''chat''
      \<and> \<not> has_key (chat_to_setting state_empty) ''chat''"
    by (simp add: state_empty_def has_key_def)
  have active: "chat_to_job state_AB ''chat'' = Some 0
      \<and> chat_to_setting state_AB ''chat'' = Some job_AB"
    by (simp add: state_AB_def)
  from absent stop_task_removes_and_cancels [of state_empty "''chat''"]
  have noop: "do_stop_task ''chat'' state_empty = (Inr (), state_empty)"
    by blast
  from active stop_task_removes_and_cancels [of state_AB "''chat''" 0 job_AB echo_parse]
  have stopped: "fst (do_stop_task ''chat'' state_AB) = Inr ()
      \<and> chat_to_job (snd (do_stop_task ''chat'' state_AB)) ''chat'' = None
      \<and> chat_to_setting (snd (do_stop_task ''chat'' state_AB)) ''chat'' = None
      \<and> tasks (snd (do_stop_task ''chat'' state_AB)) 0 = None
      \<and> (\<forall>hs. sent_to ''chat'' (foldl (wake echo_parse) (snd (do_stop_task ''chat'' state_AB)) hs)
            = sent_to ''chat'' state_AB)"
    by blast
  then have "sent_to ''chat''
      (foldl (wake echo_parse) (snd (do_stop_task ''chat'' state_AB)) [0, 0, 0])
        = sent_to ''chat'' state_AB"
    by blast
  with absent active noop stopped show ?thesis by blast
qed

section \<open>Settings: the names\<close>

text \<open>
  Claim C5. A text that \<open>json.loads\<close> rejects, and a text that it reads as a value that
  is not a list, both make \<open>_names\<close> send the error text to the chat and log a warning,
  with the settings as they were; a text read as a list replaces the names of a chat
  that has a job.
\<close>

theorem names_payload:
  "(json_loads s = None \<longrightarrow>
      do_names json_loads c (Some s) st =
        (Inr (), st\<lparr>outbox := outbox st @ [SendMessage c names_error_text],
                    logged := logged st @ [WarningNames (PStr s)]\<rparr>))
   \<and> (json_loads s = Some v \<and> \<not> isinstance_list v \<longrightarrow>
      do_names json_loads c (Some s) st =
        (Inr (), st\<lparr>outbox := outbox st @ [SendMessage c names_error_text],
                    logged := logged st @ [WarningNames v]\<rparr>))
   \<and> (json_loads s = Some (PList xs) \<and> chat_to_job st c = Some h
        \<and> chat_to_setting st c = Some job \<longrightarrow>
      do_names json_loads c (Some s) st =
        (Inr (), st\<lparr>chat_to_setting := (chat_to_setting st)(c \<mapsto> job\<lparr>names := xs\<rparr>)\<rparr>))"
  by (simp add: do_names_def names_failed_def)

theorem names_payload_witness:
  \<open>json_loads_sample ''not-json'' = None
   \<and> chat_to_setting (snd (do_names json_loads_sample ''chat'' (Some ''not-json'') state_AB)) ''chat''
       = Some job_AB
   \<and> outbox (snd (do_names json_loads_sample ''chat'' (Some ''not-json'') state_AB))
       = [SendMessage ''chat'' names_error_text]
   \<and> logged (snd (do_names json_loads_sample ''chat'' (Some ''not-json'') state_AB))
       = [WarningNames (PStr ''not-json'')]
   \<and> json_loads_sample ''{}'' = Some (PDict []) \<and> \<not> isinstance_list (PDict [])
   \<and> chat_to_setting (snd (do_names json_loads_sample ''chat'' (Some ''{}'') state_AB)) ''chat''
       = Some job_AB
   \<and> outbox (snd (do_names json_loads_sample ''chat'' (Some ''{}'') state_AB))
       = [SendMessage ''chat'' names_error_text]
   \<and> logged (snd (do_names json_loads_sample ''chat'' (Some ''{}'') state_AB))
       = [WarningNames (PDict [])]
   \<and> json_loads_sample ''[]'' = Some (PList [])
   \<and> chat_to_job state_AB ''chat'' = Some 0
   \<and> chat_to_setting state_AB ''chat'' = Some job_AB
   \<and> chat_to_setting (snd (do_names json_loads_sample ''chat'' (Some ''[]'') state_AB)) ''chat''
       = Some (job_AB\<lparr>names := []\<rparr>)
   \<and> outbox (snd (do_names json_loads_sample ''chat'' (Some ''[]'') state_AB)) = []\<close>
  using
    names_payload [of json_loads_sample "''not-json''" "''chat''" state_AB]
    names_payload [of json_loads_sample "''{}''" "''chat''" state_AB "PDict []"]
    names_payload [of json_loads_sample "''[]''" "''chat''" state_AB _ "[]" 0 job_AB]
  by (simp add: json_loads_sample_def state_AB_def)

section \<open>Settings for a chat without a job\<close>

text \<open>
  Claim C6, as the code has it. A settings command for a chat that has no job leaves both
  dictionaries and the tasks as they are; when its names are a text that \<open>json.loads\<close>
  reads as a list, it does nothing but leave the queue, and the bot receives nothing.
\<close>

theorem settings_inactive_chat:
  assumes "POLLING_QUEUE st = job_info # rest"
    and "p_command job_info = SETTINGS"
    and "\<not> has_key (chat_to_job st) (p_chat_id job_info)
         \<or> \<not> has_key (chat_to_setting st) (p_chat_id job_info)"
  shows "chat_to_job (snd (do_polling json_loads time_parse st)) = chat_to_job st
       \<and> chat_to_setting (snd (do_polling json_loads time_parse st)) = chat_to_setting st
       \<and> tasks (snd (do_polling json_loads time_parse st)) = tasks st
       \<and> (ci_names (command_info job_info) = Some s \<and> json_loads s = Some v \<and> isinstance_list v
            \<longrightarrow> do_polling json_loads time_parse st = (Inr (), st\<lparr>POLLING_QUEUE := rest\<rparr>))"
  using assms
  by (auto simp add: do_polling_def do_names_def names_failed_def do_repeat_delay_def
      and_then_def Let_def split: option.splits)

theorem settings_inactive_chat_witness:
  \<open>POLLING_QUEUE settings_inactive
      = [polling_info ''chat'' SETTINGS (Some ''["A","B"]'') (Some ''2h'')]
   \<and> p_command (polling_info ''chat'' SETTINGS (Some ''["A","B"]'') (Some ''2h'')) = SETTINGS
   \<and> \<not> has_key (chat_to_job settings_inactive) ''chat''
   \<and> json_loads_sample ''["A","B"]'' = Some (PList [PStr ''A'', PStr ''B''])
   \<and> isinstance_list (PList [PStr ''A'', PStr ''B''])
   \<and> chat_to_job (snd (do_polling json_loads_sample time_parse_sample settings_inactive)) ''chat''
       = None
   \<and> chat_to_setting (snd (do_polling json_loads_sample time_parse_sample settings_inactive)) ''chat''
       = None
   \<and> tasks (snd (do_polling json_loads_sample time_parse_sample settings_inactive)) 0 = None
   \<and> do_polling json_loads_sample time_parse_sample settings_inactive
       = (Inr (), settings_inactive\<lparr>POLLING_QUEUE := []\<rparr>)\<close>
  using settings_inactive_chat [where st = settings_inactive
      and job_info = \<open>polling_info ''chat'' SETTINGS (Some ''["A","B"]'') (Some ''2h'')\<close>
      and rest = "[]" and json_loads = json_loads_sample and time_parse = time_parse_sample
      and s = \<open>''["A","B"]''\<close> and v = "PList [PStr ''A'', PStr ''B'']"]
  by (simp add: settings_inactive_def state_empty_def polling_info_def json_loads_sample_def)

text \<open>
  Claim C6, as the specification words it, fails for names that are not JSON: \<open>_names\<close>
  reads the text before it looks the chat up, so the error text goes out to a chat that
  has no job.
\<close>

theorem settings_inactive_chat_counterexample:
  "\<not> has_key (chat_to_job settings_not_json) ''chat''
   \<and> \<not> has_key (chat_to_setting settings_not_json) ''chat''
   \<and> outbox settings_not_json = []
   \<and> outbox (snd (do_polling json_loads_sample time_parse_sample settings_not_json))
       = [SendMessage ''chat'' names_error_text]"
  by (simp add: settings_not_json_def state_empty_def polling_info_def do_polling_def
      do_names_def names_failed_def do_repeat_delay_def and_then_def json_loads_sample_def
      Let_def)

section \<open>Settings: the delay\<close>

text \<open>
  Claim C7. For a chat that has a job, a delay that is absent or the empty text is read
  from the standard text \<open>15m\<close>, and the delay \<open>2h\<close> is read as it is; with
  \<open>pytimeparse.parse\<close> giving 900 and 7200 for the two texts, these are the delays
  stored.
\<close>

theorem repeat_delay_default_and_2h:
  assumes "chat_to_job st c = Some h" and "chat_to_setting st c = Some job"
    and "time_parse ''15m'' = Some 900" and "time_parse ''2h'' = Some 7200"
  shows "do_repeat_delay time_parse c None st =
           (Inr (), st\<lparr>chat_to_setting := (chat_to_setting st)(c \<mapsto> job\<lparr>repeat_delay := Some 900\<rparr>)\<rparr>)
       \<and> do_repeat_delay time_parse c (Some []) st =
           (Inr (), st\<lparr>chat_to_setting := (chat_to_setting st)(c \<mapsto> job\<lparr>repeat_delay := Some 900\<rparr>)\<rparr>)
       \<and> do_repeat_delay time_parse c (Some ''2h'') st =
           (Inr (), st\<lparr>chat_to_setting := (chat_to_setting st)(c \<mapsto> job\<lparr>repeat_delay := Some 7200\<rparr>)\<rparr>)"
  using assms
  by (simp add: do_repeat_delay_def STANDARD_REPLAY_DELAY_def Let_def)

theorem repeat_delay_default_and_2h_witness:
  "chat_to_job state_AB ''chat'' = Some 0 \<and> chat_to_setting state_AB ''chat'' = Some job_AB
   \<and> time_parse_sample ''15m'' = Some 900 \<and> time_parse_sample ''2h'' = Some 7200
   \<and> chat_to_setting (snd (do_repeat_delay time_parse_sample ''chat'' None state_AB)) ''chat''
       = Some (job_AB\<lparr>repeat_delay := Some 900\<rparr>)
   \<and> chat_to_setting (snd (do_repeat_delay time_parse_sample ''chat'' (Some []) state_AB)) ''chat''
       = Some (job_AB\<lparr>repeat_delay := Some 900\<rparr>)
   \<and> chat_to_setting (snd (do_repeat_delay time_parse_sample ''chat'' (Some ''2h'') state_AB)) ''chat''
       = Some (job_AB\<lparr>repeat_delay := Some 7200\<rparr>)"
  using repeat_delay_default_and_2h [of state_AB "''chat''" 0 job_AB time_parse_sample]
  by (simp add: state_AB_def time_parse_sample_def)

text \<open>
  Claim C10. For a chat that has a job, a delay text that is not empty and that
  \<open>pytimeparse.parse\<close> cannot read stores \<open>None\<close> as the delay: the method returns, and
  nothing else in the state changes (nothing is sent, nothing is logged). The next
  iteration of the sender of the chat, whatever its iterator holds, calls
  \<open>asyncio.sleep\<close> with \<open>None\<close>: the argument of the call is \<open>None\<close>, and the
  \<open>TypeError\<close> that the call raises for this argument is the exception that leaves
  the loop. (Before the command, a delay \<open>d\<close> stored for the chat is the argument of
  the call, which then returns.)
\<close>

theorem repeat_delay_unparsable:
  assumes "chat_to_job st c = Some h" and "chat_to_setting st c = Some job"
    and "raw \<noteq> []" and "time_parse raw = None"
  shows "do_repeat_delay time_parse c (Some raw) st =
           (Inr (), st\<lparr>chat_to_setting := (chat_to_setting st)(c \<mapsto> job\<lparr>repeat_delay := None\<rparr>)\<rparr>)
       \<and> tick_sleep (sender_tick parse c it (snd (do_repeat_delay time_parse c (Some raw) st))) = None
       \<and> tick_raised (sender_tick parse c it (snd (do_repeat_delay time_parse c (Some raw) st)))
           = Some TypeError
       \<and> (\<forall>d. repeat_delay job = Some d \<longrightarrow>
             tick_sleep (sender_tick parse c it st) = Some d
           \<and> tick_raised (sender_tick parse c it st) = None)"
  using assms
  by (auto simp add: do_repeat_delay_def Let_def sender_tick_def finally_sleep_def
      asyncio_sleep_def split: option.splits prod.splits sum.splits)

theorem repeat_delay_unparsable_witness:
  "chat_to_job state_AB ''chat'' = Some 0 \<and> chat_to_setting state_AB ''chat'' = Some job_AB
   \<and> ''soon'' \<noteq> [] \<and> time_parse_sample ''soon'' = None
   \<and> chat_to_setting (snd (do_repeat_delay time_parse_sample ''chat'' (Some ''soon'') state_AB)) ''chat''
       = Some (job_AB\<lparr>repeat_delay := None\<rparr>)
   \<and> outbox (snd (do_repeat_delay time_parse_sample ''chat'' (Some ''soon'') state_AB)) = []
   \<and> logged (snd (do_repeat_delay time_parse_sample ''chat'' (Some ''soon'') state_AB)) = []
   \<and> tick_sleep (sender_tick echo_parse ''chat'' None
        (snd (do_repeat_delay time_parse_sample ''chat'' (Some ''soon'') state_AB))) = None
   \<and> tick_raised (sender_tick echo_parse ''chat'' None
        (snd (do_repeat_delay time_parse_sample ''chat'' (Some ''soon'') state_AB)))
       = Some TypeError
   \<and> repeat_delay job_AB = Some 900
   \<and> tick_sleep (sender_tick echo_parse ''chat'' None state_AB) = Some 900
   \<and> tick_raised (sender_tick echo_parse ''chat'' None state_AB) = None"
proof -
  have hyps: "chat_to_job state_AB ''chat'' = Some 0" "chat_to_setting state_AB ''chat'' = Some job_AB"
    "''soon'' \<noteq> []" "time_parse_sample ''soon'' = None"
    by (simp_all add: state_AB_def time_parse_sample_def)
  note stored = repeat_delay_unparsable [where st = state_AB and c = "''chat''" and h = 0
      and job = job_AB and raw = "''soon''" and time_parse = time_parse_sample
      and parse = echo_parse and it = None, OF hyps]
  from stored have eq: "do_repeat_delay time_parse_sample ''chat'' (Some ''soon'') state_AB =
      (Inr (), state_AB\<lparr>chat_to_setting :=
         (chat_to_setting state_AB)(''chat'' \<mapsto> job_AB\<lparr>repeat_delay := None\<rparr>)\<rparr>)"
    by blast
  have fields: "chat_to_setting (snd (do_repeat_delay time_parse_sample ''chat'' (Some ''soon'')
        state_AB)) ''chat'' = Some (job_AB\<lparr>repeat_delay := None\<rparr>)
      \<and> outbox (snd (do_repeat_delay time_parse_sample ''chat'' (Some ''soon'') state_AB)) = []
      \<and> logged (snd (do_repeat_delay time_parse_sample ''chat'' (Some ''soon'') state_AB)) = []"
    unfolding eq by (simp add: state_AB_def)
  from stored have "tick_sleep (sender_tick echo_parse ''chat'' None
        (snd (do_repeat_delay time_parse_sample ''chat'' (Some ''soon'') state_AB))) = None
      \<and> tick_raised (sender_tick echo_parse ''chat'' None
        (snd (do_repeat_delay time_parse_sample ''chat'' (Some ''soon'') state_AB)))
          = Some TypeError"
    by blast
  moreover have before: "repeat_delay job_AB = Some 900"
    by (simp add: job_AB_def)
  moreover from stored before have "tick_sleep (sender_tick echo_parse ''chat'' None state_AB) = Some 900
      \<and> tick_raised (sender_tick echo_parse ''chat'' None state_AB) = None"
    by blast
  ultimately show ?thesis using hyps fields by blast
qed

section \<open>Generation commands\<close>

text \<open>
  Claim C8, as the code has it. \<open>_generate\<close> takes one command and, when the content
  provider answers, sends the image alone for \<open>PICTURE\<close>, the text alone for \<open>TEXT\<close>
  and both for every other command. The provider is asked for the placeholder name when
  the name of the command is \<open>None\<close>, and for the name itself in every other case, the
  empty text too.
\<close>

theorem generate_dispatch_modes:
  assumes "GENERATE_QUEUE st = get_info # rest"
    and "parse (if first_name get_info = PNone then PStr default_name else first_name get_info)
           = Some (image_bytes, text)"
  shows "do_generate parse st =
           (Inr (),
            st\<lparr>GENERATE_QUEUE := rest,
                outbox := outbox st @
                  (if g_command get_info = PICTURE then [SendPhoto (g_chat_id get_info) image_bytes]
                   else if g_command get_info = TEXT then [SendMessage (g_chat_id get_info) text]
                   else [SendPhoto (g_chat_id get_info) image_bytes,
                         SendMessage (g_chat_id get_info) text])\<rparr>)"
  using assms
  by (simp add: do_generate_def do_send_def Let_def)

theorem generate_dispatch_modes_witness:
  "GENERATE_QUEUE (state_generate PICTURE PNone) = [generate_info ''chat'' PICTURE PNone]
   \<and> echo_parse (PStr default_name) = Some (''image of '' @ default_name, ''text for '' @ default_name)
   \<and> outbox (snd (do_generate echo_parse (state_generate PICTURE PNone)))
       = [SendPhoto ''chat'' (''image of '' @ default_name)]
   \<and> outbox (snd (do_generate echo_parse (state_generate TEXT (PStr ''Anna''))))
       = [SendMessage ''chat'' ''text for Anna'']
   \<and> outbox (snd (do_generate echo_parse (state_generate (OtherGenerate ''sticker'') (PStr ''Anna''))))
       = [SendPhoto ''chat'' ''image of Anna'', SendMessage ''chat'' ''text for Anna'']"
  using
    generate_dispatch_modes [of "state_generate PICTURE PNone"
      "generate_info ''chat'' PICTURE PNone" "[]" echo_parse
      "''image of '' @ default_name" "''text for '' @ default_name"]
    generate_dispatch_modes [of "state_generate TEXT (PStr ''Anna'')"
      "generate_info ''chat'' TEXT (PStr ''Anna'')" "[]" echo_parse
      "''image of Anna''" "''text for Anna''"]
    generate_dispatch_modes [of "state_generate (OtherGenerate ''sticker'') (PStr ''Anna'')"
      "generate_info ''chat'' (OtherGenerate ''sticker'') (PStr ''Anna'')" "[]" echo_parse
      "''image of Anna''" "''text for Anna''"]
  by (simp add: state_generate_def generate_info_def state_empty_def)

text \<open>
  Claim C8, as the specification words it, fails for the empty name: the provider is
  asked for the empty text, not for the placeholder name.
\<close>

theorem generate_empty_name_counterexample:
  "outbox (snd (do_generate echo_parse (state_generate BOTH (PStr ''''))))
     = [SendPhoto ''chat'' ''image of '', SendMessage ''chat'' ''text for '']
   \<and> outbox (snd (do_generate echo_parse (state_generate BOTH (PStr ''''))))
     \<noteq> [SendPhoto ''chat'' (''image of '' @ default_name),
         SendMessage ''chat'' (''text for '' @ default_name)]"
  by (simp add: state_generate_def generate_info_def state_empty_def do_generate_def
      do_send_def default_name_def Let_def)

section \<open>The supervisor cycle\<close>

text \<open>
  Claim C9, as the code has it. One run of \<open>callback_checker\<close> takes at most one command
  from each queue. When \<open>_polling\<close> returns, \<open>_generate\<close> runs on the state that
  \<open>_polling\<close> left; when an exception leaves \<open>_polling\<close>, it leaves
  \<open>callback_checker\<close> too and the generation queue is as it was.
\<close>

theorem callback_checker_cycle:
  "POLLING_QUEUE (snd (callback_checker jl tp parse st)) = drop 1 (POLLING_QUEUE st)
   \<and> (fst (do_polling jl tp st) = Inr () \<longrightarrow>
        callback_checker jl tp parse st = do_generate parse (snd (do_polling jl tp st))
      \<and> GENERATE_QUEUE (snd (callback_checker jl tp parse st)) = drop 1 (GENERATE_QUEUE st))
   \<and> (\<forall>e. fst (do_polling jl tp st) = Inl e \<longrightarrow>
        callback_checker jl tp parse st = (Inl e, snd (do_polling jl tp st))
      \<and> GENERATE_QUEUE (snd (callback_checker jl tp parse st)) = GENERATE_QUEUE st)"
proof -
  obtain r st1 where p: "do_polling jl tp st = (r, st1)" by (cases "do_polling jl tp st")
  have q1: "POLLING_QUEUE st1 = drop 1 (POLLING_QUEUE st)"
    using do_polling_queues(1) [of jl tp st] p by simp
  have q2: "GENERATE_QUEUE st1 = GENERATE_QUEUE st"
    using do_polling_queues(2) [of jl tp st] p by simp
  show ?thesis
  proof (cases r)
    case (Inl e)
    then show ?thesis using p q1 q2 by (simp add: callback_checker_def and_then_def)
  next
    case (Inr u)
    then show ?thesis
      using p q1 q2 do_generate_queues [of parse st1]
      by (simp add: callback_checker_def and_then_def)
  qed
qed

theorem callback_checker_cycle_witness:
  "fst (do_polling json_loads_sample time_parse_sample (state_cycle STOP)) = Inr ()
   \<and> POLLING_QUEUE (snd (callback_checker json_loads_sample time_parse_sample echo_parse
        (state_cycle STOP))) = [polling_info ''chat'' STOP None None]
   \<and> GENERATE_QUEUE (snd (callback_checker json_loads_sample time_parse_sample echo_parse
        (state_cycle STOP))) = [generate_info ''chat'' TEXT (PStr ''Vera'')]
   \<and> fst (do_polling json_loads_sample time_parse_sample (state_cycle START)) = Inl NameError
   \<and> fst (callback_checker json_loads_sample time_parse_sample echo_parse (state_cycle START))
       = Inl NameError
   \<and> GENERATE_QUEUE (snd (callback_checker json_loads_sample time_parse_sample echo_parse
        (state_cycle START))) = GENERATE_QUEUE (state_cycle START)"
proof -
  have stop: "fst (do_polling json_loads_sample time_parse_sample (state_cycle STOP)) = Inr ()"
    by (simp add: state_cycle_def state_empty_def polling_info_def do_polling_def
        do_stop_task_def Let_def)
  have start: "fst (do_polling json_loads_sample time_parse_sample (state_cycle START))
      = Inl NameError"
    by (simp add: state_cycle_def state_empty_def polling_info_def do_polling_def
        do_start_task_def run_background_task_def Let_def)
  have pq: "drop 1 (POLLING_QUEUE (state_cycle STOP)) = [polling_info ''chat'' STOP None None]"
    by (simp add: state_cycle_def)
  have gq: "drop 1 (GENERATE_QUEUE (state_cycle STOP)) = [generate_info ''chat'' TEXT (PStr ''Vera'')]"
    by (simp add: state_cycle_def)
  from stop
    callback_checker_cycle [of json_loads_sample time_parse_sample echo_parse "state_cycle STOP"]
  have returned: "POLLING_QUEUE (snd (callback_checker json_loads_sample time_parse_sample
        echo_parse (state_cycle STOP))) = drop 1 (POLLING_QUEUE (state_cycle STOP))
      \<and> GENERATE_QUEUE (snd (callback_checker json_loads_sample time_parse_sample
        echo_parse (state_cycle STOP))) = drop 1 (GENERATE_QUEUE (state_cycle STOP))"
    by blast
  from start
    callback_checker_cycle [of json_loads_sample time_parse_sample echo_parse "state_cycle START"]
  have raised: "callback_checker json_loads_sample time_parse_sample echo_parse (state_cycle START)
        = (Inl NameError, snd (do_polling json_loads_sample time_parse_sample (state_cycle START)))
      \<and> GENERATE_QUEUE (snd (callback_checker json_loads_sample time_parse_sample
        echo_parse (state_cycle START))) = GENERATE_QUEUE (state_cycle START)"
    by blast
  then have skipped: "fst (callback_checker json_loads_sample time_parse_sample echo_parse
        (state_cycle START)) = Inl NameError
      \<and> GENERATE_QUEUE (snd (callback_checker json_loads_sample time_parse_sample
        echo_parse (state_cycle START))) = GENERATE_QUEUE (state_cycle START)"
    by (metis fst_conv)
  from stop start returned skipped pq gq show ?thesis by simp
qed

text \<open>
  Claim C9, as the specification words it, fails when \<open>_polling\<close> raises: the waiting
  generation command is neither taken nor sent in that run.
\<close>

theorem callback_checker_polling_raises_counterexample:
  "fst (do_polling json_loads_sample time_parse_sample (state_cycle START)) = Inl NameError
   \<and> GENERATE_QUEUE (snd (callback_checker json_loads_sample time_parse_sample echo_parse
        (state_cycle START))) = GENERATE_QUEUE (state_cycle START)
   \<and> outbox (snd (callback_checker json_loads_sample time_parse_sample echo_parse
        (state_cycle START))) = []
   \<and> outbox (snd (do_generate echo_parse (state_cycle START)))
       = [SendPhoto ''chat'' ''image of Anna'', SendMessage ''chat'' ''text for Anna'']"
  by (simp add: state_cycle_def state_empty_def polling_info_def generate_info_def
      callback_checker_def and_then_def do_polling_def do_start_task_def
      run_background_task_def do_generate_def do_send_def Let_def)

end
